theory Spec2Isabelle
  imports Main
begin

section \<open>Package option: environment defaults and the merge of options\<close>

text \<open>
  The embedding follows \<^verbatim>\<open>pkg/option/option.go\<close>.

  \<^item> The process environment read by \<^verbatim>\<open>os.LookupEnv\<close> is a partial map from
    variable names to values, passed explicitly to every function that reads it.
  \<^item> A Go pointer \<^verbatim>\<open>*T\<close> to a value that is never written through is a
    \<open>T option\<close>: \<open>None\<close> is \<^verbatim>\<open>nil\<close>, \<open>Some v\<close> a pointer to \<open>v\<close>. The
    identity of pointers (two pointers to equal values) is not modelled; no function of
    the package compares or writes through the pointers it is given.
  \<^item> Reading a field through a \<^verbatim>\<open>nil\<close> pointer panics in Go; the panic is the
    \<open>Inl\<close> branch of a sum type.
\<close>

type_synonym environ = "string \<rightharpoonup> string"

type_synonym 'a ptr = "'a option"

datatype error = NilPointerDereference

subsection \<open>Constants\<close>

definition defaultChroot :: string where
  "defaultChroot = ''/''"

definition envKeyChroot :: string where
  "envKeyChroot = ''GHW_CHROOT''"

definition envKeySnapshotPath :: string where
  "envKeySnapshotPath = ''GHW_SNAPSHOT_PATH''"

definition envKeySnapshotRoot :: string where
  "envKeySnapshotRoot = ''GHW_SNAPSHOT_ROOT''"

definition envKeySnapshotExclusive :: string where
  "envKeySnapshotExclusive = ''GHW_SNAPSHOT_EXCLUSIVE''"

definition envKeySnapshotPreserve :: string where
  "envKeySnapshotPreserve = ''GHW_SNAPSHOT_PRESERVE''"

subsection \<open>Environment lookups\<close>

text \<open>
  \<^verbatim>\<open>os.LookupEnv(key)\<close> returns the value and whether the variable is present; the
  value is the empty string when it is not.
\<close>

definition LookupEnv :: "environ \<Rightarrow> string \<Rightarrow> string \<times> bool" where
  "LookupEnv env key = (case env key of None \<Rightarrow> ('''', False) | Some val \<Rightarrow> (val, True))"

definition EnvOrDefaultChroot :: "environ \<Rightarrow> string" where
  "EnvOrDefaultChroot env =
     (case LookupEnv env envKeyChroot of
        (val, exists) \<Rightarrow> if exists then val else defaultChroot)"

definition EnvOrDefaultSnapshotPath :: "environ \<Rightarrow> string" where
  "EnvOrDefaultSnapshotPath env =
     (case LookupEnv env envKeySnapshotPath of
        (val, exists) \<Rightarrow> if exists then val else '''')"

definition EnvOrDefaultSnapshotRoot :: "environ \<Rightarrow> string" where
  "EnvOrDefaultSnapshotRoot env =
     (case LookupEnv env envKeySnapshotRoot of
        (val, exists) \<Rightarrow> if exists then val else '''')"

definition EnvOrDefaultSnapshotExclusive :: "environ \<Rightarrow> bool" where
  "EnvOrDefaultSnapshotExclusive env =
     (case LookupEnv env envKeySnapshotExclusive of
        (_, exists) \<Rightarrow> if exists then True else False)"

definition EnvOrDefaultSnapshotPreserve :: "environ \<Rightarrow> bool" where
  "EnvOrDefaultSnapshotPreserve env =
     (case LookupEnv env envKeySnapshotPreserve of
        (_, exists) \<Rightarrow> if exists then True else False)"

subsection \<open>Option and SnapshotOptions\<close>

record SnapshotOptions =
  Path :: string
  Root :: "string ptr"
  Exclusive :: bool

record Option =
  Chroot :: "string ptr"
  Snapshot :: "SnapshotOptions ptr"

definition WithChroot :: "string \<Rightarrow> Option ptr" where
  "WithChroot dir = Some \<lparr>Chroot = Some dir, Snapshot = None\<rparr>"

definition WithSnapshot :: "SnapshotOptions \<Rightarrow> Option ptr" where
  "WithSnapshot opts = Some \<lparr>Chroot = None, Snapshot = Some opts\<rparr>"

subsection \<open>Merge\<close>

text \<open>
  The body of the \<^verbatim>\<open>range\<close> loop of \<^verbatim>\<open>Merge\<close>, for one element: both field
  reads go through the pointer \<open>opt\<close>, so a \<^verbatim>\<open>nil\<close> element panics.
\<close>

definition Merge_body :: "Option \<Rightarrow> Option ptr \<Rightarrow> error + Option" where
  "Merge_body merged p =
     (case p of
        None \<Rightarrow> Inl NilPointerDereference
      | Some opt \<Rightarrow>
          let merged = (if Chroot opt \<noteq> None then merged\<lparr>Chroot := Chroot opt\<rparr> else merged);
              merged = (if Snapshot opt \<noteq> None then merged\<lparr>Snapshot := Snapshot opt\<rparr> else merged)
          in Inr merged)"

text \<open>The loop over the arguments, from the first to the last.\<close>

fun Merge_loop :: "Option \<Rightarrow> Option ptr list \<Rightarrow> error + Option" where
  "Merge_loop merged [] = Inr merged"
| "Merge_loop merged (p # opts) =
     (case Merge_body merged p of
        Inl e \<Rightarrow> Inl e
      | Inr merged' \<Rightarrow> Merge_loop merged' opts)"

text \<open>The two blocks after the loop, which fill the fields that are still \<^verbatim>\<open>nil\<close>.\<close>

definition Merge_defaults :: "environ \<Rightarrow> Option \<Rightarrow> Option" where
  "Merge_defaults env merged =
     (let merged =
            (if Chroot merged = None
             then (let chroot = EnvOrDefaultChroot env in merged\<lparr>Chroot := Some chroot\<rparr>)
             else merged);
          merged =
            (if Snapshot merged = None
             then (let snapRoot = EnvOrDefaultSnapshotRoot env
                   in merged\<lparr>Snapshot := Some
                        \<lparr>Path = EnvOrDefaultSnapshotPath env,
                         Root = Some snapRoot,
                         Exclusive = EnvOrDefaultSnapshotExclusive env\<rparr>\<rparr>)
             else merged)
      in merged)"

text \<open>
  \<^verbatim>\<open>Merge(opts ...*Option)\<close>: the loop starts from \<^verbatim>\<open>&Option{}\<close>, whose fields
  are both \<^verbatim>\<open>nil\<close>; the result is the pointer \<open>merged\<close>, never \<^verbatim>\<open>nil\<close>.
\<close>

definition Merge :: "environ \<Rightarrow> Option ptr list \<Rightarrow> error + Option ptr" where
  "Merge env opts =
     (case Merge_loop \<lparr>Chroot = None, Snapshot = None\<rparr> opts of
        Inl e \<Rightarrow> Inl e
      | Inr merged \<Rightarrow> Inr (Some (Merge_defaults env merged)))"

subsection \<open>Notions of the specification\<close>

text \<open>
  The specification speaks of "the last argument whose field is present". For a field
  \<open>f\<close> (\<open>Chroot\<close> or \<open>Snapshot\<close>) and the argument values \<open>vs\<close>, in call order,
  \<open>last_present f vs\<close> is the field of that argument, and \<open>None\<close> when no argument
  has the field.
\<close>

definition last_present :: "('a \<Rightarrow> 'b option) \<Rightarrow> 'a list \<Rightarrow> 'b option" where
  "last_present f vs =
     (case find (\<lambda>v. f v \<noteq> None) (rev vs) of None \<Rightarrow> None | Some v \<Rightarrow> f v)"

text \<open>
  The specification's invariant "every field is resolved, no unset sentinel remains":
  the result, its chroot, its snapshot and the snapshot's root are all present.
\<close>

definition fully_resolved :: "Option ptr \<Rightarrow> bool" where
  "fully_resolved p =
     (case p of
        None \<Rightarrow> False
      | Some opt \<Rightarrow>
          Chroot opt \<noteq> None \<and>
          (case Snapshot opt of None \<Rightarrow> False | Some snap \<Rightarrow> Root snap \<noteq> None))"

section \<open>Properties\<close>

subsection \<open>Auxiliary facts about the loop\<close>

lemma last_present_Nil: "last_present f [] = None"
  by (simp add: last_present_def)

lemma last_present_snoc:
  "last_present f (vs @ [v]) = (if f v \<noteq> None then f v else last_present f vs)"
  by (simp add: last_present_def)

lemma Merge_loop_append:
  "Merge_loop m (xs @ ys) =
     (case Merge_loop m xs of Inl e \<Rightarrow> Inl e | Inr m' \<Rightarrow> Merge_loop m' ys)"
  by (induction xs arbitrary: m) (auto split: sum.splits)

text \<open>
  On pointers that are all valid the loop never panics, and each field of its result is
  the starting value overwritten by the last argument that has the field.
\<close>

lemma Merge_loop_Some:
  "Merge_loop m (map Some vs) =
     Inr \<lparr>Chroot = (case last_present Chroot vs of None \<Rightarrow> Chroot m | Some c \<Rightarrow> Some c),
          Snapshot = (case last_present Snapshot vs of None \<Rightarrow> Snapshot m | Some s \<Rightarrow> Some s)\<rparr>"
proof (induction vs rule: rev_induct)
  case Nil
  show ?case by (simp add: last_present_Nil)
next
  case (snoc v vs)
  show ?case
    by (auto simp: Merge_loop_append snoc last_present_snoc Merge_body_def)
qed

text \<open>A \<^verbatim>\<open>nil\<close> element anywhere in the arguments makes the loop panic.\<close>

lemma Merge_loop_nil:
  "None \<in> set opts \<Longrightarrow> Merge_loop m opts = Inl NilPointerDereference"
  by (induction opts arbitrary: m) (auto simp: Merge_body_def split: sum.splits option.splits)

lemma Merge_nil: "None \<in> set opts \<Longrightarrow> Merge env opts = Inl NilPointerDereference"
  by (simp add: Merge_def Merge_loop_nil)

lemma valid_ptrs: "None \<notin> set opts \<Longrightarrow> map Some (map the opts) = opts"
  by (induction opts) auto

lemma last_present_None_iff: "last_present f vs = None \<longleftrightarrow> (\<forall>v\<in>set vs. f v = None)"
  by (induction vs rule: rev_induct) (auto simp: last_present_Nil last_present_snoc)

lemma last_present_decomp:
  "f v = Some s \<Longrightarrow> \<forall>y\<in>set ys. f y = None \<Longrightarrow> last_present f (xs @ v # ys) = Some s"
proof (induction ys rule: rev_induct)
  case Nil
  then show ?case by (simp add: last_present_snoc)
next
  case (snoc y ys)
  have "last_present f ((xs @ v # ys) @ [y]) = last_present f (xs @ v # ys)"
    using snoc.prems by (simp only: last_present_snoc) simp
  then show ?case using snoc by simp
qed

lemmas env_defs =
  EnvOrDefaultChroot_def EnvOrDefaultSnapshotPath_def EnvOrDefaultSnapshotRoot_def
  EnvOrDefaultSnapshotExclusive_def EnvOrDefaultSnapshotPreserve_def LookupEnv_def
  envKeyChroot_def envKeySnapshotPath_def envKeySnapshotRoot_def envKeySnapshotExclusive_def
  envKeySnapshotPreserve_def defaultChroot_def

text \<open>The whole of \<open>Merge\<close> on valid pointers, in closed form.\<close>

lemma Merge_Some:
  "Merge env (map Some vs) =
     Inr (Some \<lparr>Chroot = Some (case last_present Chroot vs of
                                   None \<Rightarrow> EnvOrDefaultChroot env | Some c \<Rightarrow> c),
                Snapshot = Some (case last_present Snapshot vs of
                                   None \<Rightarrow> \<lparr>Path = EnvOrDefaultSnapshotPath env,
                                            Root = Some (EnvOrDefaultSnapshotRoot env),
                                            Exclusive = EnvOrDefaultSnapshotExclusive env\<rparr>
                                 | Some s \<Rightarrow> s)\<rparr>)"
  by (simp add: Merge_def Merge_loop_Some Merge_defaults_def split: option.splits)

lemma Merge_result_shape:
  "Merge env opts = Inr r \<Longrightarrow> \<exists>c s. r = Some \<lparr>Chroot = Some c, Snapshot = Some s\<rparr>"
  by (cases "None \<in> set opts")
     (use Merge_nil [of opts env] Merge_Some [of env "map the opts"] valid_ptrs [of opts] in auto)

lemma Merge_replicate_resolved:
  "Merge env (replicate (Suc n) (Some \<lparr>Chroot = Some c, Snapshot = Some s\<rparr>)) =
     Inr (Some \<lparr>Chroot = Some c, Snapshot = Some s\<rparr>)"
proof -
  let ?v = "\<lparr>Chroot = Some c, Snapshot = Some s\<rparr>"
  have "replicate (Suc n) (Some ?v) = map Some (replicate n ?v @ [?v])"
    by (simp add: replicate_append_same)
  then show ?thesis
    by (simp only: Merge_Some last_present_snoc) simp
qed

text \<open>
  Which variables \<open>Merge\<close> depends on: \<^verbatim>\<open>GHW_CHROOT\<close> only when no argument has a
  chroot, the three snapshot variables only when no argument has a snapshot, and no
  other variable.
\<close>

lemma Merge_env_cong:
  assumes "last_present Chroot vs = None \<Longrightarrow> env1 envKeyChroot = env2 envKeyChroot"
    and "last_present Snapshot vs = None \<Longrightarrow>
           env1 envKeySnapshotPath = env2 envKeySnapshotPath \<and>
           env1 envKeySnapshotRoot = env2 envKeySnapshotRoot \<and>
           env1 envKeySnapshotExclusive = env2 envKeySnapshotExclusive"
  shows "Merge env1 (map Some vs) = Merge env2 (map Some vs)"
proof -
  have c: "last_present Chroot vs = None \<Longrightarrow> EnvOrDefaultChroot env1 = EnvOrDefaultChroot env2"
    using assms(1) by (simp add: EnvOrDefaultChroot_def LookupEnv_def)
  have s: "last_present Snapshot vs = None \<Longrightarrow>
      EnvOrDefaultSnapshotPath env1 = EnvOrDefaultSnapshotPath env2 \<and>
      EnvOrDefaultSnapshotRoot env1 = EnvOrDefaultSnapshotRoot env2 \<and>
      EnvOrDefaultSnapshotExclusive env1 = EnvOrDefaultSnapshotExclusive env2"
    using assms(2)
    by (simp add: EnvOrDefaultSnapshotPath_def EnvOrDefaultSnapshotRoot_def
        EnvOrDefaultSnapshotExclusive_def LookupEnv_def)
  show ?thesis
    using c s by (simp add: Merge_Some split: option.splits)
qed

lemma Merge_env_cong_ptrs:
  assumes "(\<forall>v. Some v \<in> set opts \<longrightarrow> Chroot v = None) \<Longrightarrow>
             env1 envKeyChroot = env2 envKeyChroot"
    and "(\<forall>v. Some v \<in> set opts \<longrightarrow> Snapshot v = None) \<Longrightarrow>
           env1 envKeySnapshotPath = env2 envKeySnapshotPath \<and>
           env1 envKeySnapshotRoot = env2 envKeySnapshotRoot \<and>
           env1 envKeySnapshotExclusive = env2 envKeySnapshotExclusive"
  shows "Merge env1 opts = Merge env2 opts"
proof (cases "None \<in> set opts")
  case True
  then show ?thesis by (simp add: Merge_nil)
next
  case False
  then have eq: "map Some (map the opts) = opts"
    by (rule valid_ptrs)
  have mem: "v \<in> set (map the opts)" if "Some v \<in> set opts" for v
    using that by force
  have "Merge env1 (map Some (map the opts)) = Merge env2 (map Some (map the opts))"
  proof (rule Merge_env_cong)
    assume "last_present Chroot (map the opts) = None"
    then have "\<forall>v. Some v \<in> set opts \<longrightarrow> Chroot v = None"
      using mem by (simp only: last_present_None_iff) blast
    then show "env1 envKeyChroot = env2 envKeyChroot"
      by (rule assms(1))
  next
    assume "last_present Snapshot (map the opts) = None"
    then have "\<forall>v. Some v \<in> set opts \<longrightarrow> Snapshot v = None"
      using mem by (simp only: last_present_None_iff) blast
    then show "env1 envKeySnapshotPath = env2 envKeySnapshotPath \<and>
           env1 envKeySnapshotRoot = env2 envKeySnapshotRoot \<and>
           env1 envKeySnapshotExclusive = env2 envKeySnapshotExclusive"
      by (rule assms(2))
  qed
  then show ?thesis by (simp only: eq)
qed

subsection \<open>The environment lookups\<close>

text \<open>
  Claim C4, as stated: \<open>EnvOrDefaultChroot\<close> returns \<open>''/''\<close> exactly when
  \<^verbatim>\<open>GHW_CHROOT\<close> is absent. This fails when the variable is present with the value
  \<open>''/''\<close>: the function returns \<open>''/''\<close> and the variable is not absent.
\<close>

theorem EnvOrDefaultChroot_slash_when_present_counterexample:
  "\<not> (EnvOrDefaultChroot [''GHW_CHROOT'' \<mapsto> ''/''] = ''/'' \<longleftrightarrow>
        [''GHW_CHROOT'' \<mapsto> ''/''] ''GHW_CHROOT'' = None)"
  by (simp add: env_defs)

text \<open>
  Claim C4, amended: for every environment, \<open>EnvOrDefaultChroot\<close> returns \<open>''/''\<close> when
  \<^verbatim>\<open>GHW_CHROOT\<close> is absent and the exact value of the variable when it is present
  (the empty string included, and \<open>''/''\<close> itself when that is the value). The function
  returns a plain string: it has no error result.
\<close>

theorem EnvOrDefaultChroot_value:
  "EnvOrDefaultChroot env = (case env ''GHW_CHROOT'' of None \<Rightarrow> ''/'' | Some val \<Rightarrow> val) \<and>
   EnvOrDefaultChroot (env(''GHW_CHROOT'' \<mapsto> '''')) = '''' \<and>
   EnvOrDefaultChroot (env(''GHW_CHROOT'' := None)) = ''/''"
  by (simp add: env_defs split: option.splits)

text \<open>
  Claim C5: for every environment, \<open>EnvOrDefaultSnapshotExclusive\<close> is true if and only
  if \<^verbatim>\<open>GHW_SNAPSHOT_EXCLUSIVE\<close> is present, whatever its value: present with the
  empty string gives true, absent gives false.
\<close>

theorem EnvOrDefaultSnapshotExclusive_iff_present:
  "(EnvOrDefaultSnapshotExclusive env \<longleftrightarrow> ''GHW_SNAPSHOT_EXCLUSIVE'' \<in> dom env) \<and>
   EnvOrDefaultSnapshotExclusive (env(''GHW_SNAPSHOT_EXCLUSIVE'' \<mapsto> '''')) \<and>
   \<not> EnvOrDefaultSnapshotExclusive (env(''GHW_SNAPSHOT_EXCLUSIVE'' := None))"
  by (simp add: env_defs dom_def split: option.splits)

text \<open>
  Claim C8: \<open>EnvOrDefaultSnapshotPreserve\<close> is true if and only if
  \<^verbatim>\<open>GHW_SNAPSHOT_PRESERVE\<close> is present, whatever its value. The function reads the
  environment alone, and no argument of \<open>Merge\<close> can carry the setting: an \<open>Option\<close> is
  exactly its chroot and its snapshot, and a \<open>SnapshotOptions\<close> exactly its path, root
  and exclusive flag.
\<close>

theorem EnvOrDefaultSnapshotPreserve_env_only:
  "(EnvOrDefaultSnapshotPreserve env \<longleftrightarrow> ''GHW_SNAPSHOT_PRESERVE'' \<in> dom env) \<and>
   EnvOrDefaultSnapshotPreserve (env(''GHW_SNAPSHOT_PRESERVE'' \<mapsto> '''')) \<and>
   \<not> EnvOrDefaultSnapshotPreserve (env(''GHW_SNAPSHOT_PRESERVE'' := None)) \<and>
   (opt :: Option) = \<lparr>Chroot = Chroot opt, Snapshot = Snapshot opt\<rparr> \<and>
   (snap :: SnapshotOptions) = \<lparr>Path = Path snap, Root = Root snap, Exclusive = Exclusive snap\<rparr>"
  by (simp add: env_defs dom_def split: option.splits)

subsection \<open>The merge\<close>

text \<open>
  Claim C1: for every sequence \<open>vs\<close> of Option values (passed as valid pointers), the
  loop of \<open>Merge\<close>, before any default is applied, ends with the chroot of the last
  argument whose chroot is present and the snapshot of the last argument whose snapshot
  is present (both absent when no argument has them), and \<open>Merge\<close> returns the defaults
  applied to exactly that value. Each field of the result is a function of the same
  field of the arguments alone, so an argument that sets only the chroot leaves an
  earlier snapshot in place, and the other way round.
\<close>

theorem Merge_last_wins_per_field:
  "Merge_loop \<lparr>Chroot = None, Snapshot = None\<rparr> (map Some vs) =
      Inr \<lparr>Chroot = last_present Chroot vs, Snapshot = last_present Snapshot vs\<rparr> \<and>
   Merge env (map Some vs) =
      Inr (Some (Merge_defaults env
        \<lparr>Chroot = last_present Chroot vs, Snapshot = last_present Snapshot vs\<rparr>))"
  by (simp add: Merge_def Merge_loop_Some split: option.splits)

text \<open>
  The examples of the specification: the later chroot wins; a chroot and a snapshot
  given by different arguments are both kept, in either order.
\<close>

theorem Merge_last_wins_per_field_witness:
  "Merge_loop \<lparr>Chroot = None, Snapshot = None\<rparr> [WithChroot ''/a'', WithChroot ''/b''] =
     Inr \<lparr>Chroot = Some ''/b'', Snapshot = None\<rparr> \<and>
   Merge_loop \<lparr>Chroot = None, Snapshot = None\<rparr>
       [WithChroot ''/a'', WithSnapshot \<lparr>Path = ''/snap'', Root = None, Exclusive = False\<rparr>] =
     Inr \<lparr>Chroot = Some ''/a'',
          Snapshot = Some \<lparr>Path = ''/snap'', Root = None, Exclusive = False\<rparr>\<rparr> \<and>
   Merge_loop \<lparr>Chroot = None, Snapshot = None\<rparr>
       [WithSnapshot \<lparr>Path = ''/snap'', Root = None, Exclusive = False\<rparr>, WithChroot ''/a''] =
     Inr \<lparr>Chroot = Some ''/a'',
          Snapshot = Some \<lparr>Path = ''/snap'', Root = None, Exclusive = False\<rparr>\<rparr>"
  using
    Merge_last_wins_per_field
      [of "[\<lparr>Chroot = Some ''/a'', Snapshot = None\<rparr>, \<lparr>Chroot = Some ''/b'', Snapshot = None\<rparr>]"
          Map.empty]
    Merge_last_wins_per_field
      [of "[\<lparr>Chroot = Some ''/a'', Snapshot = None\<rparr>,
            \<lparr>Chroot = None,
             Snapshot = Some \<lparr>Path = ''/snap'', Root = None, Exclusive = False\<rparr>\<rparr>]"
          Map.empty]
    Merge_last_wins_per_field
      [of "[\<lparr>Chroot = None,
             Snapshot = Some \<lparr>Path = ''/snap'', Root = None, Exclusive = False\<rparr>\<rparr>,
            \<lparr>Chroot = Some ''/a'', Snapshot = None\<rparr>]"
          Map.empty]
  by (simp add: WithChroot_def WithSnapshot_def last_present_def)

text \<open>
  Claim C2, as stated: the Option returned by \<open>Merge\<close> is fully resolved for every
  argument list. This fails for an argument whose snapshot has no root: the snapshot is
  returned as it was given, with its root still absent.
\<close>

theorem Merge_not_fully_resolved_counterexample:
  "Merge Map.empty [WithSnapshot \<lparr>Path = ''/snap'', Root = None, Exclusive = False\<rparr>] =
     Inr (Some \<lparr>Chroot = Some ''/'',
                Snapshot = Some \<lparr>Path = ''/snap'', Root = None, Exclusive = False\<rparr>\<rparr>) \<and>
   \<not> fully_resolved
       (Some \<lparr>Chroot = Some ''/'',
              Snapshot = Some \<lparr>Path = ''/snap'', Root = None, Exclusive = False\<rparr>\<rparr>)"
  by (simp add: Merge_def Merge_body_def Merge_defaults_def WithSnapshot_def
      fully_resolved_def env_defs)

text \<open>
  Claim C2, amended: for every list of valid arguments and every environment, \<open>Merge\<close>
  returns an Option whose chroot and snapshot are both present. A chroot that no
  argument supplies is the value of \<^verbatim>\<open>GHW_CHROOT\<close>, or \<open>''/''\<close> when that is
  absent. A snapshot that no argument supplies is built from the environment with every
  part resolved: the path (default empty), a present root (default empty) and the
  exclusive flag (default false). A snapshot that an argument supplies is returned as
  given, so the result is fully resolved exactly when no argument supplies a snapshot or
  the last snapshot supplied has its root present.
\<close>

theorem Merge_resolved_fields:
  "Merge env (map Some vs) =
     Inr (Some
       \<lparr>Chroot = Some
          (case last_present Chroot vs of
             Some c \<Rightarrow> c
           | None \<Rightarrow> (case env ''GHW_CHROOT'' of Some val \<Rightarrow> val | None \<Rightarrow> ''/'')),
        Snapshot = Some
          (case last_present Snapshot vs of
             Some s \<Rightarrow> s
           | None \<Rightarrow>
               \<lparr>Path = (case env ''GHW_SNAPSHOT_PATH'' of Some val \<Rightarrow> val | None \<Rightarrow> ''''),
                Root = Some (case env ''GHW_SNAPSHOT_ROOT'' of Some val \<Rightarrow> val | None \<Rightarrow> ''''),
                Exclusive = (''GHW_SNAPSHOT_EXCLUSIVE'' \<in> dom env)\<rparr>)\<rparr>) \<and>
   (\<exists>r. Merge env (map Some vs) = Inr r \<and>
        (fully_resolved r \<longleftrightarrow>
           (case last_present Snapshot vs of None \<Rightarrow> True | Some s \<Rightarrow> Root s \<noteq> None)))"
  by (simp add: Merge_Some fully_resolved_def env_defs dom_def split: option.splits)

theorem Merge_resolved_fields_witness:
  "Merge [''GHW_SNAPSHOT_ROOT'' \<mapsto> ''/r''] [WithChroot ''/a''] =
     Inr (Some \<lparr>Chroot = Some ''/a'',
                Snapshot = Some \<lparr>Path = '''', Root = Some ''/r'', Exclusive = False\<rparr>\<rparr>) \<and>
   fully_resolved
     (Some \<lparr>Chroot = Some ''/a'',
            Snapshot = Some \<lparr>Path = '''', Root = Some ''/r'', Exclusive = False\<rparr>\<rparr>)"
  using Merge_resolved_fields
    [of "[''GHW_SNAPSHOT_ROOT'' \<mapsto> ''/r'']" "[\<lparr>Chroot = Some ''/a'', Snapshot = None\<rparr>]"]
  by (auto simp add: WithChroot_def last_present_def)

text \<open>
  Claim C3: with no argument, \<open>Merge\<close> returns the Option made of the four
  environment-or-default lookups. When none of \<^verbatim>\<open>GHW_CHROOT\<close>,
  \<^verbatim>\<open>GHW_SNAPSHOT_PATH\<close>, \<^verbatim>\<open>GHW_SNAPSHOT_ROOT\<close> and
  \<^verbatim>\<open>GHW_SNAPSHOT_EXCLUSIVE\<close> is set, that is chroot \<open>''/''\<close>, an empty snapshot path,
  an empty snapshot root and exclusive false; when \<^verbatim>\<open>GHW_CHROOT\<close> is \<open>''/host''\<close>, the
  chroot is \<open>''/host''\<close>.
\<close>

theorem Merge_no_arguments:
  "Merge env [] =
     Inr (Some \<lparr>Chroot = Some (EnvOrDefaultChroot env),
                Snapshot = Some \<lparr>Path = EnvOrDefaultSnapshotPath env,
                                 Root = Some (EnvOrDefaultSnapshotRoot env),
                                 Exclusive = EnvOrDefaultSnapshotExclusive env\<rparr>\<rparr>) \<and>
   (env ''GHW_CHROOT'' = None \<and> env ''GHW_SNAPSHOT_PATH'' = None \<and>
    env ''GHW_SNAPSHOT_ROOT'' = None \<and> env ''GHW_SNAPSHOT_EXCLUSIVE'' = None \<longrightarrow>
      Merge env [] =
        Inr (Some \<lparr>Chroot = Some ''/'',
                   Snapshot = Some \<lparr>Path = '''', Root = Some '''', Exclusive = False\<rparr>\<rparr>)) \<and>
   (env ''GHW_CHROOT'' = Some ''/host'' \<longrightarrow>
      (\<exists>snap. Merge env [] = Inr (Some \<lparr>Chroot = Some ''/host'', Snapshot = Some snap\<rparr>)))"
  by (simp add: Merge_def Merge_defaults_def env_defs)

theorem Merge_no_arguments_witness:
  "Merge Map.empty [] =
     Inr (Some \<lparr>Chroot = Some ''/'',
                Snapshot = Some \<lparr>Path = '''', Root = Some '''', Exclusive = False\<rparr>\<rparr>) \<and>
   (\<exists>snap. Merge [''GHW_CHROOT'' \<mapsto> ''/host''] [] =
      Inr (Some \<lparr>Chroot = Some ''/host'', Snapshot = Some snap\<rparr>))"
  using Merge_no_arguments [of Map.empty]
    Merge_no_arguments [of "[''GHW_CHROOT'' \<mapsto> ''/host'']"]
  by (simp add: env_defs)

text \<open>
  Claim C6: for every argument list and environment, merging again the Option that
  \<open>Merge\<close> returned gives that same Option, whether it is passed once, twice or any
  number of times. Its chroot and snapshot are present, so no default applies; the
  environment of the second call does not matter.
\<close>

theorem Merge_idempotent:
  "Merge env opts = Inr r \<Longrightarrow>
     Merge env [r] = Inr r \<and> Merge env [r, r] = Inr r \<and>
     Merge env' (replicate (Suc n) r) = Inr r"
proof -
  assume "Merge env opts = Inr r"
  then obtain c s where r: "r = Some \<lparr>Chroot = Some c, Snapshot = Some s\<rparr>"
    using Merge_result_shape by blast
  show ?thesis
    using Merge_replicate_resolved [of env 0 c s] Merge_replicate_resolved [of env 1 c s]
      Merge_replicate_resolved [of env' n c s]
    by (simp add: r numeral_2_eq_2)
qed

theorem Merge_idempotent_witness:
  "Merge Map.empty
     [Some \<lparr>Chroot = Some ''/a'',
            Snapshot = Some \<lparr>Path = ''/snap'', Root = None, Exclusive = False\<rparr>\<rparr>] =
   Inr (Some \<lparr>Chroot = Some ''/a'',
              Snapshot = Some \<lparr>Path = ''/snap'', Root = None, Exclusive = False\<rparr>\<rparr>)"
proof -
  have h: "Merge Map.empty
      [WithChroot ''/a'', WithSnapshot \<lparr>Path = ''/snap'', Root = None, Exclusive = False\<rparr>] =
    Inr (Some \<lparr>Chroot = Some ''/a'',
               Snapshot = Some \<lparr>Path = ''/snap'', Root = None, Exclusive = False\<rparr>\<rparr>)"
    by (simp add: Merge_def Merge_body_def Merge_defaults_def WithChroot_def WithSnapshot_def)
  show ?thesis
    using Merge_idempotent [OF h] by simp
qed

text \<open>
  Claim C7: every operation succeeds on well-formed inputs, in every environment. The
  five lookups return a plain string or boolean for every environment (their types have
  no error result, and the environment ranges over all maps from names to values);
  \<open>WithChroot\<close> and \<open>WithSnapshot\<close> return a valid pointer for every input; and
  \<open>Merge\<close> returns a valid pointer to an Option whenever its arguments are valid
  pointers, in particular on anything the two constructors build. (A \<^verbatim>\<open>nil\<close>
  argument is not a well-formed input: see \<open>Merge_nil\<close>.)
\<close>

theorem resolver_operations_total:
  "(\<exists>opt. WithChroot dir = Some opt) \<and>
   (\<exists>opt. WithSnapshot snap = Some opt) \<and>
   (None \<notin> set opts \<longrightarrow> (\<exists>r. Merge env opts = Inr (Some r))) \<and>
   (\<exists>r. Merge env [WithChroot dir, WithSnapshot snap] = Inr (Some r))"
proof -
  have 1: "\<exists>opt. WithChroot dir = Some opt"
    by (simp add: WithChroot_def)
  have 2: "\<exists>opt. WithSnapshot snap = Some opt"
    by (simp add: WithSnapshot_def)
  have 3: "None \<notin> set opts \<longrightarrow> (\<exists>r. Merge env opts = Inr (Some r))"
    using Merge_Some [of env "map the opts"] valid_ptrs [of opts] by auto
  have 4: "\<exists>r. Merge env [WithChroot dir, WithSnapshot snap] = Inr (Some r)"
    by (simp add: WithChroot_def WithSnapshot_def Merge_def Merge_body_def)
  from 1 2 3 4 show ?thesis by blast
qed

theorem resolver_operations_total_witness:
  "\<exists>r. Merge [''GHW_CHROOT'' \<mapsto> ''a=b c''] [WithChroot ''/a'', WithChroot ''''] = Inr (Some r)"
  using resolver_operations_total
    [of "''/a''" "\<lparr>Path = '''', Root = None, Exclusive = False\<rparr>"
        "[WithChroot ''/a'', WithChroot '''']" "[''GHW_CHROOT'' \<mapsto> ''a=b c'']"]
  by (simp add: WithChroot_def)

text \<open>
  Claim C9: when some argument has its snapshot present, the snapshot of the result is
  the SnapshotOptions of the last such argument, whole: here \<open>v\<close> is that argument, the
  arguments \<open>ys\<close> after it have no snapshot, and \<open>xs\<close> before it are arbitrary. If its
  root is absent, the root of the result is absent, and the result is the same whatever
  \<^verbatim>\<open>GHW_SNAPSHOT_ROOT\<close> holds (set to any value, or unset).
\<close>

theorem Merge_snapshot_taken_whole:
  "Snapshot v = Some s \<and> (\<forall>y\<in>set ys. Snapshot y = None) \<longrightarrow>
     (\<exists>c. Merge env (map Some (xs @ v # ys)) =
             Inr (Some \<lparr>Chroot = Some c, Snapshot = Some s\<rparr>)) \<and>
     (Root s = None \<longrightarrow>
        (\<exists>r snap. Merge env (map Some (xs @ v # ys)) = Inr (Some r) \<and>
                   Snapshot r = Some snap \<and> Root snap = None)) \<and>
     Merge (env(''GHW_SNAPSHOT_ROOT'' := x)) (map Some (xs @ v # ys)) =
       Merge env (map Some (xs @ v # ys))"
proof (intro impI, elim conjE)
  assume v: "Snapshot v = Some s" and ys: "\<forall>y\<in>set ys. Snapshot y = None"
  have lp: "last_present Snapshot (xs @ v # ys) = Some s"
    using v ys by (rule last_present_decomp)
  have 1: "\<exists>c. Merge env (map Some (xs @ v # ys)) =
             Inr (Some \<lparr>Chroot = Some c, Snapshot = Some s\<rparr>)"
    by (simp only: Merge_Some lp) simp
  have 2: "Root s = None \<longrightarrow>
        (\<exists>r snap. Merge env (map Some (xs @ v # ys)) = Inr (Some r) \<and>
                   Snapshot r = Some snap \<and> Root snap = None)"
    using 1 by auto
  have 3: "Merge (env(''GHW_SNAPSHOT_ROOT'' := x)) (map Some (xs @ v # ys)) =
       Merge env (map Some (xs @ v # ys))"
    by (rule Merge_env_cong) (simp_all add: lp envKeyChroot_def)
  from 1 2 3 show
    "(\<exists>c. Merge env (map Some (xs @ v # ys)) =
             Inr (Some \<lparr>Chroot = Some c, Snapshot = Some s\<rparr>)) \<and>
     (Root s = None \<longrightarrow>
        (\<exists>r snap. Merge env (map Some (xs @ v # ys)) = Inr (Some r) \<and>
                   Snapshot r = Some snap \<and> Root snap = None)) \<and>
     Merge (env(''GHW_SNAPSHOT_ROOT'' := x)) (map Some (xs @ v # ys)) =
       Merge env (map Some (xs @ v # ys))"
    by blast
qed

theorem Merge_snapshot_taken_whole_witness:
  "Merge [''GHW_SNAPSHOT_ROOT'' \<mapsto> ''/r'']
     [WithSnapshot \<lparr>Path = ''/old'', Root = Some ''/x'', Exclusive = True\<rparr>,
      WithSnapshot \<lparr>Path = ''/snap'', Root = None, Exclusive = False\<rparr>,
      WithChroot ''/a''] =
   Inr (Some \<lparr>Chroot = Some ''/a'',
              Snapshot = Some \<lparr>Path = ''/snap'', Root = None, Exclusive = False\<rparr>\<rparr>)"
  using Merge_snapshot_taken_whole
    [of "\<lparr>Chroot = None,
          Snapshot = Some \<lparr>Path = ''/snap'', Root = None, Exclusive = False\<rparr>\<rparr>"
        "\<lparr>Path = ''/snap'', Root = None, Exclusive = False\<rparr>"
        "[\<lparr>Chroot = Some ''/a'', Snapshot = None\<rparr>]"
        "[''GHW_SNAPSHOT_ROOT'' \<mapsto> ''/r'']"
        "[\<lparr>Chroot = None,
           Snapshot = Some \<lparr>Path = ''/old'', Root = Some ''/x'', Exclusive = True\<rparr>\<rparr>]"
        None]
  by (simp add: WithSnapshot_def WithChroot_def Merge_def Merge_body_def Merge_defaults_def)

text \<open>
  Claim C10: the result of \<open>Merge\<close> is the same in two environments that differ only in
  \<^verbatim>\<open>GHW_CHROOT\<close> when some argument has its chroot present; the same in two
  environments that differ only in \<^verbatim>\<open>GHW_SNAPSHOT_PATH\<close>, \<^verbatim>\<open>GHW_SNAPSHOT_ROOT\<close>
  or \<^verbatim>\<open>GHW_SNAPSHOT_EXCLUSIVE\<close> (in any of the three) when some argument has its
  snapshot present; and the same, for every argument list, in two environments that
  differ only in \<^verbatim>\<open>GHW_SNAPSHOT_PRESERVE\<close>.
\<close>

theorem Merge_env_noninterference:
  "((\<forall>k. k \<noteq> ''GHW_CHROOT'' \<longrightarrow> env1 k = env2 k) \<and>
      Some v \<in> set opts \<and> Chroot v \<noteq> None \<longrightarrow>
        Merge env1 opts = Merge env2 opts) \<and>
   ((\<forall>k. k \<notin> {''GHW_SNAPSHOT_PATH'', ''GHW_SNAPSHOT_ROOT'', ''GHW_SNAPSHOT_EXCLUSIVE''} \<longrightarrow>
          env1 k = env2 k) \<and>
      Some v \<in> set opts \<and> Snapshot v \<noteq> None \<longrightarrow>
        Merge env1 opts = Merge env2 opts) \<and>
   ((\<forall>k. k \<noteq> ''GHW_SNAPSHOT_PRESERVE'' \<longrightarrow> env1 k = env2 k) \<longrightarrow>
        Merge env1 opts = Merge env2 opts)"
proof -
  have a: "Merge env1 opts = Merge env2 opts"
    if "\<forall>k. k \<noteq> ''GHW_CHROOT'' \<longrightarrow> env1 k = env2 k" "Some v \<in> set opts" "Chroot v \<noteq> None"
    using that
    by (intro Merge_env_cong_ptrs)
       (auto simp: envKeySnapshotPath_def envKeySnapshotRoot_def envKeySnapshotExclusive_def)
  have b: "Merge env1 opts = Merge env2 opts"
    if "\<forall>k. k \<notin> {''GHW_SNAPSHOT_PATH'', ''GHW_SNAPSHOT_ROOT'', ''GHW_SNAPSHOT_EXCLUSIVE''} \<longrightarrow>
          env1 k = env2 k" "Some v \<in> set opts" "Snapshot v \<noteq> None"
    using that
    by (intro Merge_env_cong_ptrs) (auto simp: envKeyChroot_def)
  have c: "Merge env1 opts = Merge env2 opts"
    if "\<forall>k. k \<noteq> ''GHW_SNAPSHOT_PRESERVE'' \<longrightarrow> env1 k = env2 k"
    using that
    by (intro Merge_env_cong_ptrs)
       (auto simp: envKeyChroot_def envKeySnapshotPath_def envKeySnapshotRoot_def
          envKeySnapshotExclusive_def)
  from a b c show ?thesis by blast
qed

theorem Merge_env_noninterference_witness:
  "Merge [''GHW_CHROOT'' \<mapsto> ''/host''] [WithChroot ''/a''] =
     Merge Map.empty [WithChroot ''/a''] \<and>
   Merge [''GHW_SNAPSHOT_PATH'' \<mapsto> ''/p'', ''GHW_SNAPSHOT_EXCLUSIVE'' \<mapsto> ''1'']
         [WithSnapshot \<lparr>Path = ''/snap'', Root = None, Exclusive = False\<rparr>] =
     Merge Map.empty [WithSnapshot \<lparr>Path = ''/snap'', Root = None, Exclusive = False\<rparr>] \<and>
   Merge [''GHW_SNAPSHOT_PRESERVE'' \<mapsto> ''1''] [] = Merge Map.empty []"
proof -
  have 1: "Merge [''GHW_CHROOT'' \<mapsto> ''/host''] [WithChroot ''/a''] =
      Merge Map.empty [WithChroot ''/a'']"
    using Merge_env_noninterference
      [of "[''GHW_CHROOT'' \<mapsto> ''/host'']" Map.empty
          "\<lparr>Chroot = Some ''/a'', Snapshot = None\<rparr>" "[WithChroot ''/a'']"]
    by (simp add: WithChroot_def)
  have 2: "Merge [''GHW_SNAPSHOT_PATH'' \<mapsto> ''/p'', ''GHW_SNAPSHOT_EXCLUSIVE'' \<mapsto> ''1'']
         [WithSnapshot \<lparr>Path = ''/snap'', Root = None, Exclusive = False\<rparr>] =
     Merge Map.empty [WithSnapshot \<lparr>Path = ''/snap'', Root = None, Exclusive = False\<rparr>]"
    using Merge_env_noninterference
      [of "[''GHW_SNAPSHOT_PATH'' \<mapsto> ''/p'', ''GHW_SNAPSHOT_EXCLUSIVE'' \<mapsto> ''1'']" Map.empty
          "\<lparr>Chroot = None,
            Snapshot = Some \<lparr>Path = ''/snap'', Root = None, Exclusive = False\<rparr>\<rparr>"
          "[WithSnapshot \<lparr>Path = ''/snap'', Root = None, Exclusive = False\<rparr>]"]
    by (simp add: WithSnapshot_def)
  have 3: "Merge [''GHW_SNAPSHOT_PRESERVE'' \<mapsto> ''1''] [] = Merge Map.empty []"
    using Merge_env_noninterference
      [of "[''GHW_SNAPSHOT_PRESERVE'' \<mapsto> ''1'']" Map.empty
          "\<lparr>Chroot = None, Snapshot = None\<rparr>" "[]"]
    by simp
  from 1 2 3 show ?thesis by blast
qed

end
